theory Spec2Isabelle
  imports Main "HOL-Library.Sublist"
begin

section \<open>Python values, exceptions and the outside world\<close>

text \<open>
  The script \<^verbatim>\<open>scripts/bokeh-phy.py\<close> is a pipeline of seven small functions around
  four external libraries (baltic, pandas, json, bokeh). The libraries and the file
  system are not part of the repository: they enter the model as the fields of the
  record \<open>env\<close>, one field per call the script makes, each returning either the
  exception the call raised or its value.

  A Python \<^verbatim>\<open>str\<close> is a \<open>string\<close>; a character outside ASCII stands by its UTF-8
  bytes. The text read from the tree file is the exception: \<^verbatim>\<open>str.strip\<close> decides by
  code point, so that text is a list of code points.
\<close>

text \<open>
  An exception is either \<^verbatim>\<open>KeyboardInterrupt\<close> (a \<^verbatim>\<open>BaseException\<close> that no
  \<^verbatim>\<open>except Exception\<close> clause catches) or an instance of a subclass of
  \<^verbatim>\<open>Exception\<close>: its class name, the text \<^verbatim>\<open>str(e)\<close>, and the exception that was
  being handled when it was raised (\<^verbatim>\<open>__context__\<close>).
\<close>

datatype exn =
    KeyboardInterrupt
  | Exception (exn_class: string) (exn_msg: string) (exn_context: "exn option")

type_synonym unicode = "nat list"

record table =
  columns :: "string list"
  rows :: "string list list"

datatype tree = Tree (getExternal: "string list")

datatype json =
    JNull
  | JBool bool
  | JNumber string
  | JString string
  | JArray "json list"
  | JObject "(string \<times> json) list"

datatype pyfloat = PyFloat string

datatype plot = Plot string

text \<open>
  A local variable of \<^verbatim>\<open>save_plot\<close> holds a string at one moment and a function
  object at another; \<open>PyFunc\<close> carries the text that \<^verbatim>\<open>str\<close> gives for the function.
\<close>

datatype pyval = PyStr string | PyFunc string

record render_config =
  rc_tree :: tree
  rc_type :: string
  rc_df_metadata :: table
  rc_color_column :: string
  rc_color_discrete_map :: json
  rc_size :: int
  rc_plot_width :: int
  rc_plot_height :: int
  rc_output_backend :: string
  rc_marker :: string
  rc_marker_line_color :: string
  rc_marker_line_width :: int
  rc_hover_data :: "string list"
  rc_max_branch_length :: pyfloat
  rc_min_branch_length :: pyfloat

text \<open>
  The file system as \<^verbatim>\<open>save_plot\<close> changes it: the directories and the files that
  exist, each path a list of components.
\<close>

record fs =
  fs_dirs :: "string list list"
  fs_files :: "(string list \<times> plot) list"

record env =
  path_exists :: "string \<Rightarrow> bool"
  read_text :: "string \<Rightarrow> exn + unicode"
  loadNewick :: "string \<Rightarrow> exn + tree"
  read_csv :: "string \<Rightarrow> char \<Rightarrow> exn + table"
  json_load :: "string \<Rightarrow> exn + json"
  py_repr :: "string \<Rightarrow> string"
  Vivid :: "string list"
  plotTree :: "render_config \<Rightarrow> exn + plot"
  bokeh_output_file_repr :: string
  bokeh_save :: "pyval \<Rightarrow> plot \<Rightarrow> fs \<Rightarrow> exn + fs"
  bokeh_show :: "pyval \<Rightarrow> plot \<Rightarrow> fs \<Rightarrow> exn + fs"
  abspath :: "string \<Rightarrow> string"

record args =
  arg_tree :: string
  arg_metadata :: string
  arg_output :: string
  arg_color_column :: string
  arg_hover_columns :: "string list"
  arg_width :: int
  arg_height :: int
  arg_tree_type :: string
  arg_marker :: string
  arg_marker_size :: int
  arg_max_branch_length :: pyfloat
  arg_min_branch_length :: pyfloat
  arg_backend :: string
  arg_custom_colors :: "string option"
  arg_show_plot :: bool

section \<open>Input Validator\<close>

text \<open>
  \<^verbatim>\<open>str.strip()\<close> removes the code points for which \<^verbatim>\<open>str.isspace\<close> holds from both
  ends.
\<close>

definition py_isspace :: "nat \<Rightarrow> bool" where
  "py_isspace c \<longleftrightarrow>
     (9 \<le> c \<and> c \<le> 13) \<or> (28 \<le> c \<and> c \<le> 32) \<or> c = 133 \<or> c = 160 \<or> c = 5760 \<or>
     (8192 \<le> c \<and> c \<le> 8202) \<or> c = 8232 \<or> c = 8233 \<or> c = 8239 \<or> c = 8287 \<or>
     c = 12288"

definition strip :: "unicode \<Rightarrow> unicode" where
  "strip s = rev (dropWhile py_isspace (rev (dropWhile py_isspace s)))"

text \<open>
  The pattern \<^verbatim>\<open>except Exception as e: raise Cls(f"...{e}")\<close>, used four times in the
  script: an \<^verbatim>\<open>Exception\<close> is replaced by a new one of class \<open>cls\<close> whose message is
  built from \<^verbatim>\<open>str(e)\<close> and whose context is \<open>e\<close>; a \<^verbatim>\<open>KeyboardInterrupt\<close> and a
  value pass through.
\<close>

definition reraise :: "string \<Rightarrow> (string \<Rightarrow> string) \<Rightarrow> exn + 'a \<Rightarrow> exn + 'a" where
  "reraise cls fmt r =
     (case r of
        Inl KeyboardInterrupt \<Rightarrow> Inl KeyboardInterrupt
      | Inl (Exception c m x) \<Rightarrow> Inl (Exception cls (fmt m) (Some (Exception c m x)))
      | Inr v \<Rightarrow> Inr v)"

text \<open>
  \<^verbatim>\<open>validate_inputs\<close>, lines 176-191. The \<^verbatim>\<open>ValueError\<close> for an empty tree file is
  raised inside the \<^verbatim>\<open>try\<close> block, so the \<^verbatim>\<open>except Exception\<close> clause catches it
  and raises the second \<^verbatim>\<open>ValueError\<close> around it.
\<close>

definition validate_inputs :: "env \<Rightarrow> string \<Rightarrow> string \<Rightarrow> exn + unit" where
  "validate_inputs env tree_file metadata_file =
     (if \<not> path_exists env tree_file then
        Inl (Exception ''FileNotFoundError'' (''Tree file not found: '' @ tree_file) None)
      else if \<not> path_exists env metadata_file then
        Inl (Exception ''FileNotFoundError'' (''Metadata file not found: '' @ metadata_file) None)
      else
        reraise ''ValueError'' (\<lambda>m. ''Cannot read tree file '' @ tree_file @ '': '' @ m)
          (case read_text env tree_file of
             Inl e \<Rightarrow> Inl e
           | Inr content \<Rightarrow>
               (if strip content = [] then
                  Inl (Exception ''ValueError'' (''Tree file is empty: '' @ tree_file) None)
                else Inr ())))"

section \<open>Rendering values as text\<close>

text \<open>
  \<^verbatim>\<open>str\<close> of a natural number, \<^verbatim>\<open>repr\<close> of a string and \<^verbatim>\<open>str\<close> of a list of
  strings, as the f-strings of the script use them. \<^verbatim>\<open>repr\<close> takes double quotes when
  the string has a single quote and no double quote, and escapes the backslash, the
  chosen quote and the control characters. For a character outside ASCII \<^verbatim>\<open>repr\<close>
  consults the Unicode database of the interpreter (a printable character is kept, any
  other is escaped); for a string with such a character the result is the field
  \<open>py_repr\<close> of the environment.
\<close>

definition digit_char :: "nat \<Rightarrow> char" where
  "digit_char d = (''0123456789abcdef'' ! (d mod 16))"

fun str_nat :: "nat \<Rightarrow> string" where
  "str_nat n = (if n < 10 then [digit_char n] else str_nat (n div 10) @ [digit_char (n mod 10)])"

declare str_nat.simps [simp del]

definition repr_char :: "char \<Rightarrow> char \<Rightarrow> string" where
  "repr_char q c =
     (if c = CHR 0x5C then [CHR 0x5C, CHR 0x5C]
      else if c = q then [CHR 0x5C, q]
      else if c = CHR 0x09 then [CHR 0x5C, CHR ''t'']
      else if c = CHR 0x0A then [CHR 0x5C, CHR ''n'']
      else if c = CHR 0x0D then [CHR 0x5C, CHR ''r'']
      else if (of_char c :: nat) < 32 \<or> (of_char c :: nat) = 127 then
        [CHR 0x5C, CHR ''x'', digit_char (of_char c div 16), digit_char (of_char c mod 16)]
      else [c])"

definition repr_ascii :: "string \<Rightarrow> string" where
  "repr_ascii s =
     (let q = (if CHR 0x27 \<in> set s \<and> CHR 0x22 \<notin> set s then CHR 0x22 else CHR 0x27)
      in [q] @ concat (map (repr_char q) s) @ [q])"

definition repr_str :: "env \<Rightarrow> string \<Rightarrow> string" where
  "repr_str env s =
     (if list_all (\<lambda>c. (of_char c :: nat) < 128) s then repr_ascii s else py_repr env s)"

fun join :: "string \<Rightarrow> string list \<Rightarrow> string" where
  "join sep [] = []"
| "join sep [x] = x"
| "join sep (x # y # ys) = x @ sep @ join sep (y # ys)"

definition str_list :: "env \<Rightarrow> string list \<Rightarrow> string" where
  "str_list env xs = ''['' @ join '', '' (map (repr_str env) xs) @ '']''"

section \<open>Tree Loader, Metadata Loader and Schema Reconciler\<close>

text \<open>
  The loop of lines 205-213. A bare \<^verbatim>\<open>except:\<close> catches whatever \<^verbatim>\<open>pd.read_csv\<close>
  raises, a \<^verbatim>\<open>KeyboardInterrupt\<close> too, and moves to the next separator. The result
  is the table at which the loop stopped by \<^verbatim>\<open>break\<close>, or \<open>None\<close> when the loop ran
  out and its \<^verbatim>\<open>else\<close> branch is taken.
\<close>

fun try_separators :: "env \<Rightarrow> string \<Rightarrow> char list \<Rightarrow> table option" where
  "try_separators env metadata_file [] = None"
| "try_separators env metadata_file (sep # seps) =
     (case read_csv env metadata_file sep of
        Inl e \<Rightarrow> try_separators env metadata_file seps
      | Inr metadata \<Rightarrow>
          (if length (columns metadata) > 1 then Some metadata
           else try_separators env metadata_file seps))"

definition separators :: "char list" where
  "separators = [CHR 0x09, CHR '','', CHR '' '']"

text \<open>
  Lines 203-216 of \<^verbatim>\<open>load_data\<close>: the loop inside the outer \<^verbatim>\<open>try\<close>, whose
  \<^verbatim>\<open>except Exception\<close> clause catches the \<^verbatim>\<open>ValueError\<close> of the \<^verbatim>\<open>else\<close> branch.
\<close>

definition load_metadata :: "env \<Rightarrow> string \<Rightarrow> exn + table" where
  "load_metadata env metadata_file =
     reraise ''ValueError'' (\<lambda>m. ''Error loading metadata: '' @ m)
       (case try_separators env metadata_file separators of
          Some metadata \<Rightarrow> Inr metadata
        | None \<Rightarrow>
            Inl (Exception ''ValueError''
                   ''Could not parse metadata file with any common separator'' None))"

text \<open>
  \<^verbatim>\<open>load_data\<close>, lines 194-232. The second component is the list of lines printed.
\<close>

definition load_data ::
  "env \<Rightarrow> string \<Rightarrow> string \<Rightarrow> string \<Rightarrow> string list \<Rightarrow>
     (exn + tree \<times> table \<times> string list) \<times> string list" where
  "load_data env tree_file metadata_file color_column hover_columns =
     (let out1 = [''Loading tree from: '' @ tree_file] in
      case reraise ''ValueError'' (\<lambda>m. ''Error loading tree: '' @ m)
             (loadNewick env tree_file) of
        Inl e \<Rightarrow> (Inl e, out1)
      | Inr tree \<Rightarrow>
          (let out2 = out1 @ [''Loading metadata from: '' @ metadata_file] in
           case load_metadata env metadata_file of
             Inl e \<Rightarrow> (Inl e, out2)
           | Inr metadata \<Rightarrow>
               (let out3 = out2 @
                      [''Loaded tree with '' @ str_nat (length (getExternal tree)) @ '' tips'',
                       ''Loaded metadata for '' @ str_nat (length (rows metadata)) @ '' samples'']
                in
                if color_column \<notin> set (columns metadata) then
                  (let available_cols = columns metadata in
                   (Inl (Exception ''ValueError''
                           (''Color column '' @ [CHR 0x27] @ color_column @ [CHR 0x27] @
                            '' not found in metadata. Available columns: '' @
                            str_list env available_cols) None),
                    out3))
                else
                  (let missing_hover =
                         filter (\<lambda>col. col \<notin> set (columns metadata)) hover_columns
                   in
                   if missing_hover \<noteq> [] then
                     (Inr (tree, metadata,
                           filter (\<lambda>col. col \<in> set (columns metadata)) hover_columns),
                      out3 @ [''Warning: Hover columns not found in metadata: '' @
                              str_list env missing_hover])
                   else (Inr (tree, metadata, hover_columns), out3)))))"

section \<open>Color Resolver\<close>

text \<open>
  Indexing a list: Python raises \<^verbatim>\<open>IndexError\<close> past the end. The script uses no
  negative index.
\<close>

definition getitem :: "string list \<Rightarrow> nat \<Rightarrow> exn + string" where
  "getitem xs i =
     (if i < length xs then Inr (xs ! i)
      else Inl (Exception ''IndexError'' ''list index out of range'' None))"

text \<open>
  A dictionary display whose values are palette entries: the entries are evaluated in
  the order written, and the first lookup that fails ends the evaluation.
\<close>

fun dict_display :: "string list \<Rightarrow> (string \<times> nat) list \<Rightarrow> exn + (string \<times> string) list" where
  "dict_display pal [] = Inr []"
| "dict_display pal ((k, i) # kis) =
     (case getitem pal i of
        Inl e \<Rightarrow> Inl e
      | Inr v \<Rightarrow>
          (case dict_display pal kis of
             Inl e \<Rightarrow> Inl e
           | Inr d \<Rightarrow> Inr ((k, v) # d)))"

text \<open>
  \<^verbatim>\<open>get_default_colors\<close>, lines 143-161. \<open>TAXON_PALETTE\<close> is plotly's
  \<^verbatim>\<open>px.colors.qualitative.Vivid\<close>, the field \<open>Vivid\<close> of the environment. The
  dictionary keeps the order of insertion; its keys are distinct.
\<close>

definition get_default_colors :: "env \<Rightarrow> exn + (string \<times> string) list" where
  "get_default_colors env =
     (let TAXON_PALETTE = Vivid env in
      case dict_display TAXON_PALETTE
             [(''gambiae'', 1), (''coluzzii'', 0), (''arabiensis'', 2), (''merus'', 3),
              (''melas'', 4), (''quadriannulatus'', 5), (''fontenillei'', 6), (''gcx1'', 7),
              (''gcx2'', 8), (''gcx3'', 9), (''gcx4'', 10), (''bissau'', 7), (''pwani'', 9)] of
        Inl e \<Rightarrow> Inl e
      | Inr d \<Rightarrow> Inr (d @ [(''unassigned'', ''black'')]))"

text \<open>
  A dictionary from strings to strings as a value of the type \<^verbatim>\<open>json.load\<close> returns.
\<close>

definition py_dict :: "(string \<times> string) list \<Rightarrow> json" where
  "py_dict d = JObject (map (\<lambda>(k, v). (k, JString v)) d)"

text \<open>
  An exception raised while \<open>e\<close> is being handled gets \<open>e\<close> as its context.
\<close>

definition while_handling :: "exn \<Rightarrow> exn + 'a \<Rightarrow> exn + 'a" where
  "while_handling e r =
     (case r of
        Inl (Exception c m None) \<Rightarrow> Inl (Exception c m (Some e))
      | _ \<Rightarrow> r)"

text \<open>
  \<^verbatim>\<open>load_custom_colors\<close>, lines 164-173; \<open>json_load\<close> stands for opening the file
  and decoding it.
\<close>

definition load_custom_colors :: "env \<Rightarrow> string \<Rightarrow> (exn + json) \<times> string list" where
  "load_custom_colors env color_file =
     (case json_load env color_file of
        Inr v \<Rightarrow> (Inr v, [])
      | Inl KeyboardInterrupt \<Rightarrow> (Inl KeyboardInterrupt, [])
      | Inl (Exception c m x) \<Rightarrow>
          (while_handling (Exception c m x)
             (case get_default_colors env of Inl e \<Rightarrow> Inl e | Inr d \<Rightarrow> Inr (py_dict d)),
           [''Warning: Could not load custom colors from '' @ color_file @ '': '' @ m,
            ''Using default colors instead.'']))"

text \<open>
  Lines 300-304 of \<^verbatim>\<open>main\<close>. An option that was not given is \<^verbatim>\<open>None\<close>, and the
  empty string is false as well.
\<close>

definition color_mapping :: "env \<Rightarrow> string option \<Rightarrow> (exn + json) \<times> string list" where
  "color_mapping env custom_colors =
     (case custom_colors of
        None \<Rightarrow> (case get_default_colors env of Inl e \<Rightarrow> Inl e | Inr d \<Rightarrow> Inr (py_dict d), [])
      | Some color_file \<Rightarrow>
          (if color_file \<noteq> [] then load_custom_colors env color_file
           else (case get_default_colors env of Inl e \<Rightarrow> Inl e | Inr d \<Rightarrow> Inr (py_dict d), [])))"

section \<open>Plot Assembler\<close>

text \<open>\<^verbatim>\<open>create_plot\<close>, lines 235-259.\<close>

definition create_plot ::
  "env \<Rightarrow> tree \<Rightarrow> table \<Rightarrow> args \<Rightarrow> json \<Rightarrow> (exn + plot) \<times> string list" where
  "create_plot env tree metadata a color_map =
     (reraise ''RuntimeError'' (\<lambda>m. ''Error creating plot: '' @ m)
        (plotTree env
           \<lparr>rc_tree = tree,
            rc_type = arg_tree_type a,
            rc_df_metadata = metadata,
            rc_color_column = arg_color_column a,
            rc_color_discrete_map = color_map,
            rc_size = arg_marker_size a,
            rc_plot_width = arg_width a,
            rc_plot_height = arg_height a,
            rc_output_backend = arg_backend a,
            rc_marker = arg_marker a,
            rc_marker_line_color = ''white'',
            rc_marker_line_width = 0,
            rc_hover_data = arg_hover_columns a,
            rc_max_branch_length = arg_max_branch_length a,
            rc_min_branch_length = arg_min_branch_length a\<rparr>),
      [''Creating phylogenetic tree plot...''])"

section \<open>Output Writer\<close>

text \<open>
  \<^verbatim>\<open>pathlib.Path\<close> of a value: the components of a string between slashes, without the
  empty ones and the dots, and with the root in front for an absolute path: \<open>''//''\<close>
  for exactly two leading slashes, as POSIX has it, and \<open>''/''\<close> for any other number.
  A value that is not a string or a path raises \<^verbatim>\<open>TypeError\<close>.
\<close>

fun split_on :: "char \<Rightarrow> string \<Rightarrow> string list" where
  "split_on d [] = [[]]"
| "split_on d (c # cs) =
     (if c = d then [] # split_on d cs
      else (case split_on d cs of [] \<Rightarrow> [[c]] | p # ps \<Rightarrow> (c # p) # ps))"

definition path_root :: "string \<Rightarrow> string list" where
  "path_root s =
     (let n = length (takeWhile (\<lambda>c. c = CHR ''/'') s)
      in if n = 2 then [''//''] else if 0 < n then [''/''] else [])"

definition path_parts :: "string \<Rightarrow> string list" where
  "path_parts s =
     path_root s @ filter (\<lambda>p. p \<noteq> [] \<and> p \<noteq> ''.'') (split_on CHR ''/'' s)"

definition path_str :: "string list \<Rightarrow> string" where
  "path_str p =
     (case p of
        [] \<Rightarrow> ''.''
      | r # ps \<Rightarrow> if r = ''/'' \<or> r = ''//'' then r @ join ''/'' ps else join ''/'' p)"

definition Path :: "pyval \<Rightarrow> exn + string list" where
  "Path v =
     (case v of
        PyStr s \<Rightarrow> Inr (path_parts s)
      | PyFunc r \<Rightarrow>
          Inl (Exception ''TypeError''
                 ''expected str, bytes or os.PathLike object, not function'' None))"

definition parent :: "string list \<Rightarrow> string list" where
  "parent p = (if p = [] \<or> p = [''/''] \<or> p = [''//''] then p else butlast p)"

definition dir_exists :: "fs \<Rightarrow> string list \<Rightarrow> bool" where
  "dir_exists f d \<longleftrightarrow> d = [] \<or> d = [''/''] \<or> d = [''//''] \<or> d \<in> set (fs_dirs f)"

definition file_exists :: "fs \<Rightarrow> string list \<Rightarrow> bool" where
  "file_exists f p \<longleftrightarrow> p \<in> fst ` set (fs_files f)"

text \<open>
  \<^verbatim>\<open>mkdir(parents=True, exist_ok=True)\<close>, given the directory's ancestors and the
  directory itself, outermost first: each one that is missing is created, one that
  is a directory already is left alone, and one that is a file stops the call, with
  the error of the operating system for the directory asked for.
\<close>

fun mkdir_parents :: "env \<Rightarrow> string list list \<Rightarrow> fs \<Rightarrow> (exn + unit) \<times> fs" where
  "mkdir_parents env [] f = (Inr (), f)"
| "mkdir_parents env (d # ds) f =
     (if file_exists f d then
        (Inl (if ds = [] then
                Exception ''FileExistsError''
                  (''[Errno 17] File exists: '' @ repr_str env (path_str d)) None
              else
                Exception ''NotADirectoryError''
                  (''[Errno 20] Not a directory: '' @ repr_str env (path_str (last ds))) None), f)
      else mkdir_parents env ds
             (if dir_exists f d then f else f\<lparr>fs_dirs := fs_dirs f @ [d]\<rparr>))"

definition py_str :: "pyval \<Rightarrow> string" where
  "py_str v = (case v of PyStr s \<Rightarrow> s | PyFunc r \<Rightarrow> r)"

text \<open>
  Calling a value with one argument. bokeh's \<^verbatim>\<open>output_file\<close> records its argument as
  the file name of the session, which \<^verbatim>\<open>save\<close> and \<^verbatim>\<open>show\<close> read later; a string is
  not callable.
\<close>

definition py_call :: "pyval \<Rightarrow> pyval \<Rightarrow> exn + pyval" where
  "py_call f x =
     (case f of
        PyFunc r \<Rightarrow> Inr x
      | PyStr s \<Rightarrow> Inl (Exception ''TypeError'' ([CHR 0x27] @ ''str'' @ [CHR 0x27] @ '' object is not callable'') None))"

definition os_abspath :: "env \<Rightarrow> pyval \<Rightarrow> exn + string" where
  "os_abspath env v =
     (case v of
        PyStr s \<Rightarrow> Inr (abspath env s)
      | PyFunc r \<Rightarrow>
          Inl (Exception ''TypeError''
                 ''expected str, bytes or os.PathLike object, not function'' None))"

definition check_mark :: string where
  "check_mark = [CHR 0xE2, CHR 0x9C, CHR 0x85]"

definition cross_mark :: string where
  "cross_mark = [CHR 0xE2, CHR 0x9D, CHR 0x8C]"

text \<open>
  \<^verbatim>\<open>save_plot\<close>, lines 262-281. Line 264,
  \<^verbatim>\<open>from bokeh.plotting import output_file, save, show\<close>, is an assignment to the local
  names \<^verbatim>\<open>output_file\<close>, \<^verbatim>\<open>save\<close> and \<^verbatim>\<open>show\<close>; \<^verbatim>\<open>output_file\<close> is a parameter of the
  function, hence a local name, and from that line on it holds bokeh's function and no
  longer the path that the caller passed. The result is the outcome, the file system
  after the call and the lines printed.
\<close>

definition save_plot ::
  "env \<Rightarrow> fs \<Rightarrow> plot \<Rightarrow> string \<Rightarrow> bool \<Rightarrow> (exn + unit) \<times> fs \<times> string list" where
  "save_plot env f plot output_file show_plot =
     (let output_file = PyFunc (bokeh_output_file_repr env);
          out1 = [''Saving plot to: '' @ py_str output_file]
      in
      case Path output_file of
        Inl e \<Rightarrow> (Inl e, f, out1)
      | Inr output_path \<Rightarrow>
          (case mkdir_parents env (tl (prefixes (parent output_path))) f of
             (Inl e, f1) \<Rightarrow> (Inl e, f1, out1)
           | (Inr u, f1) \<Rightarrow>
               (case py_call output_file output_file of
                  Inl e \<Rightarrow> (Inl e, f1, out1)
                | Inr filename \<Rightarrow>
                    (case (if show_plot then bokeh_show env filename plot f1
                           else bokeh_save env filename plot f1) of
                       Inl e \<Rightarrow> (Inl e, f1, out1)
                     | Inr f2 \<Rightarrow>
                         (let out2 = out1 @
                                [check_mark @ '' Plot saved successfully to '' @ py_str output_file]
                          in
                          if \<not> show_plot then
                            (case os_abspath env output_file of
                               Inl e \<Rightarrow> (Inl e, f2, out2)
                             | Inr p \<Rightarrow> (Inr (), f2, out2 @ [''   Open in browser: file://'' @ p]))
                          else (Inr (), f2, out2))))))"

section \<open>The top level\<close>

text \<open>
  The \<^verbatim>\<open>try\<close> block of \<^verbatim>\<open>main\<close>, lines 289-310, on the parsed arguments. Line 298
  stores the reconciled hover columns back into the arguments.
\<close>

definition main_body :: "env \<Rightarrow> fs \<Rightarrow> args \<Rightarrow> (exn + unit) \<times> fs \<times> string list" where
  "main_body env f a =
     (case validate_inputs env (arg_tree a) (arg_metadata a) of
        Inl e \<Rightarrow> (Inl e, f, [])
      | Inr u \<Rightarrow>
          (case load_data env (arg_tree a) (arg_metadata a) (arg_color_column a)
                  (arg_hover_columns a) of
             (Inl e, out1) \<Rightarrow> (Inl e, f, out1)
           | (Inr (tree, metadata, hover_columns), out1) \<Rightarrow>
               (let a = a\<lparr>arg_hover_columns := hover_columns\<rparr> in
                case color_mapping env (arg_custom_colors a) of
                  (Inl e, out2) \<Rightarrow> (Inl e, f, out1 @ out2)
                | (Inr color_map, out2) \<Rightarrow>
                    (case create_plot env tree metadata a color_map of
                       (Inl e, out3) \<Rightarrow> (Inl e, f, out1 @ out2 @ out3)
                     | (Inr plot, out3) \<Rightarrow>
                         (case save_plot env f plot (arg_output a) (arg_show_plot a) of
                            (r, f', out4) \<Rightarrow> (r, f', out1 @ out2 @ out3 @ out4))))))"

text \<open>
  The handlers of lines 312-317 and the end of \<^verbatim>\<open>main\<close>: the exit code of the process,
  the file system and everything printed. \<^verbatim>\<open>sys.exit(1)\<close> ends the process with code 1;
  a \<^verbatim>\<open>main\<close> that returns ends it with code 0.
\<close>

definition handle_outcome ::
  "(exn + unit) \<times> fs \<times> string list \<Rightarrow> nat \<times> fs \<times> string list" where
  "handle_outcome r =
     (case r of
        (Inr u, f, out) \<Rightarrow> (0, f, out)
      | (Inl KeyboardInterrupt, f, out) \<Rightarrow>
          (1, f, out @ [[CHR 0x0A] @ cross_mark @ '' Interrupted by user''])
      | (Inl (Exception c m x), f, out) \<Rightarrow> (1, f, out @ [cross_mark @ '' Error: '' @ m]))"

definition main :: "env \<Rightarrow> fs \<Rightarrow> args \<Rightarrow> nat \<times> fs \<times> string list" where
  "main env f a = handle_outcome (main_body env f a)"

section \<open>A concrete run\<close>

text \<open>
  The inputs of the examples: the tree \<^verbatim>\<open>(A:0.1,(B:0.2,C:0.3):0.1);\<close> in
  \<^verbatim>\<open>tree.nwk\<close>, a comma-separated table with the columns \<^verbatim>\<open>sample\<close> and
  \<^verbatim>\<open>taxon\<close> in \<^verbatim>\<open>meta.csv\<close>, a second tree file \<^verbatim>\<open>broken.nwk\<close> with the text
  \<^verbatim>\<open>A,B;\<close>, in which the parser finds no tree string, a file \<^verbatim>\<open>notes.txt\<close> that no separator splits, no color file, and plotly's
  palette \<^verbatim>\<open>Vivid\<close>.
\<close>

definition sample_table :: table where
  "sample_table =
     \<lparr>columns = [''sample'', ''taxon''],
      rows = [[''A'', ''gambiae''], [''B'', ''coluzzii''], [''C'', ''merus'']]\<rparr>"

definition unsplit_table :: table where
  "unsplit_table =
     \<lparr>columns = [''sample,taxon''],
      rows = [[''A,gambiae''], [''B,coluzzii''], [''C,merus'']]\<rparr>"

definition vivid_palette :: "string list" where
  "vivid_palette =
     [''rgb(229, 134, 6)'', ''rgb(93, 105, 177)'', ''rgb(82, 188, 163)'',
      ''rgb(153, 201, 69)'', ''rgb(204, 97, 176)'', ''rgb(36, 121, 108)'',
      ''rgb(218, 165, 27)'', ''rgb(47, 138, 196)'', ''rgb(118, 78, 159)'',
      ''rgb(237, 100, 90)'', ''rgb(165, 170, 153)'']"

definition write_html :: "pyval \<Rightarrow> plot \<Rightarrow> fs \<Rightarrow> exn + fs" where
  "write_html filename p f =
     (case filename of
        PyStr s \<Rightarrow> Inr (f\<lparr>fs_files := (path_parts s, p) # fs_files f\<rparr>)
      | PyFunc r \<Rightarrow>
          Inl (Exception ''TypeError''
                 ''expected str, bytes or os.PathLike object, not function'' None))"

definition sample_env :: env where
  "sample_env =
     \<lparr>path_exists = (\<lambda>p. p \<in> {''tree.nwk'', ''meta.csv'', ''broken.nwk'', ''notes.txt''}),
      read_text = (\<lambda>p.
        if p = ''tree.nwk'' then Inr [40, 65, 58, 48, 46, 49, 44, 40, 66, 58, 48, 46, 50, 44,
                                      67, 58, 48, 46, 51, 41, 58, 48, 46, 49, 41, 59, 10]
        else if p = ''broken.nwk'' then Inr [65, 44, 66, 59, 10]
        else Inl (Exception ''PermissionError'' ''[Errno 13] Permission denied'' None)),
      loadNewick = (\<lambda>p.
        if p = ''tree.nwk'' then Inr (Tree [''A'', ''B'', ''C''])
        else Inl (Exception ''AssertionError''
                   ''Regular expression failed to find tree string'' None)),
      read_csv = (\<lambda>p sep.
        if p = ''meta.csv'' then (if sep = CHR '','' then Inr sample_table else Inr unsplit_table)
        else if p = ''notes.txt'' \<and> sep = CHR '','' then Inr unsplit_table
        else Inl (Exception ''ParserError'' ''Error tokenizing data'' None)),
      json_load = (\<lambda>p.
        Inl (Exception ''FileNotFoundError'' ''[Errno 2] No such file or directory'' None)),
      py_repr = (\<lambda>s. [CHR 0x27] @ s @ [CHR 0x27]),
      Vivid = vivid_palette,
      plotTree = (\<lambda>rc. Inr (Plot ''<html>'')),
      bokeh_output_file_repr = ''<function output_file at 0x7f3a5c1d2e50>'',
      bokeh_save = write_html,
      bokeh_show = write_html,
      abspath = (\<lambda>s. ''/home/user/'' @ s)\<rparr>"

definition sample_args :: args where
  "sample_args =
     \<lparr>arg_tree = ''tree.nwk'',
      arg_metadata = ''meta.csv'',
      arg_output = ''results/plots/tree.html'',
      arg_color_column = ''taxon'',
      arg_hover_columns = [''taxon'', ''country''],
      arg_width = 1000,
      arg_height = 1000,
      arg_tree_type = ''c'',
      arg_marker = ''hex'',
      arg_marker_size = 15,
      arg_max_branch_length = PyFloat ''0.005'',
      arg_min_branch_length = PyFloat ''5e-5'',
      arg_backend = ''webgl'',
      arg_custom_colors = None,
      arg_show_plot = False\<rparr>"

definition empty_fs :: fs where
  "empty_fs = \<lparr>fs_dirs = [], fs_files = []\<rparr>"

section \<open>Auxiliary facts\<close>

lemma dropWhile_all_iff: "(\<forall>x\<in>set (dropWhile P s). P x) \<longleftrightarrow> dropWhile P s = []"
proof (cases "dropWhile P s")
  case Nil
  then show ?thesis by (auto dest: set_dropWhileD)
next
  case (Cons y ys)
  then have "\<not> P (hd (dropWhile P s))"
    using hd_dropWhile [of P s] by simp
  with Cons show ?thesis by auto
qed

lemma strip_empty_iff: "strip s = [] \<longleftrightarrow> (\<forall>c\<in>set s. py_isspace c)"
  by (simp add: strip_def dropWhile_eq_Nil_conv dropWhile_all_iff)

lemma sublist_embed: "sublist x w \<Longrightarrow> sublist x (a @ w @ b)"
proof -
  assume "sublist x w"
  then obtain ps ss where "w = ps @ x @ ss"
    by (auto simp: sublist_def)
  then have "a @ w @ b = (a @ ps) @ x @ (ss @ b)" by simp
  then show ?thesis
    unfolding sublist_def by blast
qed

lemma sublist_join: "x \<in> set xs \<Longrightarrow> sublist x (join sep xs)"
proof (induction sep xs rule: join.induct)
  case (1 sep)
  then show ?case by simp
next
  case (2 sep y)
  then show ?case by simp
next
  case (3 sep y z zs)
  show ?case
  proof (cases "x = y")
    case True
    then show ?thesis by simp
  next
    case False
    with 3 have "sublist x (join sep (z # zs))" by simp
    then have "sublist x ((y @ sep) @ join sep (z # zs) @ [])"
      by (rule sublist_embed)
    then show ?thesis by simp
  qed
qed

lemma sublist_str_list: "c \<in> set cols \<Longrightarrow> sublist (repr_str env c) (str_list env cols)"
proof -
  assume "c \<in> set cols"
  then have "sublist (repr_str env c) (join '', '' (map (repr_str env) cols))"
    by (intro sublist_join) simp
  then have "sublist (repr_str env c) (''['' @ join '', '' (map (repr_str env) cols) @ '']'')"
    by (rule sublist_embed)
  then show ?thesis by (simp add: str_list_def)
qed

lemma try_separators_Some_D:
  "try_separators env f seps = Some md \<Longrightarrow>
   \<exists>sep\<in>set seps. read_csv env f sep = Inr md \<and> 1 < length (columns md)"
  by (induction seps) (auto split: sum.splits if_splits)

lemma load_metadata_Inr_D:
  assumes "load_metadata env mf = Inr md"
  shows "\<exists>sep\<in>set separators. read_csv env mf sep = Inr md \<and> 1 < length (columns md)"
proof -
  from assms have "try_separators env mf separators = Some md"
    by (auto simp: load_metadata_def reraise_def split: option.splits)
  then show ?thesis by (rule try_separators_Some_D)
qed

lemma load_data_tree_error:
  assumes "loadNewick env tf = Inl (Exception c m x)"
  shows "load_data env tf mf cc hov =
           (Inl (Exception ''ValueError'' (''Error loading tree: '' @ m)
                   (Some (Exception c m x))),
            [''Loading tree from: '' @ tf])"
  using assms by (simp add: load_data_def reraise_def Let_def)

lemma load_data_metadata_error:
  assumes "loadNewick env tf = Inr t" and "load_metadata env mf = Inl e"
  shows "load_data env tf mf cc hov =
           (Inl e, [''Loading tree from: '' @ tf, ''Loading metadata from: '' @ mf])"
  using assms by (simp add: load_data_def reraise_def Let_def)

lemma load_data_color_error:
  assumes "loadNewick env tf = Inr t" and "load_metadata env mf = Inr md"
    and "cc \<notin> set (columns md)"
  shows "load_data env tf mf cc hov =
           (Inl (Exception ''ValueError''
                   (''Color column '' @ [CHR 0x27] @ cc @ [CHR 0x27] @
                    '' not found in metadata. Available columns: '' @ str_list env (columns md))
                   None),
            [''Loading tree from: '' @ tf, ''Loading metadata from: '' @ mf,
             ''Loaded tree with '' @ str_nat (length (getExternal t)) @ '' tips'',
             ''Loaded metadata for '' @ str_nat (length (rows md)) @ '' samples''])"
  using assms by (simp add: load_data_def reraise_def Let_def)

lemma load_data_ok:
  assumes "loadNewick env tf = Inr t" and "load_metadata env mf = Inr md"
    and "cc \<in> set (columns md)"
  shows "load_data env tf mf cc hov =
           (Inr (t, md, filter (\<lambda>col. col \<in> set (columns md)) hov),
            [''Loading tree from: '' @ tf, ''Loading metadata from: '' @ mf,
             ''Loaded tree with '' @ str_nat (length (getExternal t)) @ '' tips'',
             ''Loaded metadata for '' @ str_nat (length (rows md)) @ '' samples''] @
            (if filter (\<lambda>col. col \<notin> set (columns md)) hov = [] then []
             else [''Warning: Hover columns not found in metadata: '' @
                   str_list env (filter (\<lambda>col. col \<notin> set (columns md)) hov)]))"
proof (cases "filter (\<lambda>col. col \<notin> set (columns md)) hov = []")
  case True
  then have "\<forall>c\<in>set hov. c \<in> set (columns md)"
    by (simp add: filter_empty_conv)
  then have "filter (\<lambda>col. col \<in> set (columns md)) hov = hov"
    by (simp add: filter_id_conv)
  with True assms show ?thesis
    by (simp add: load_data_def reraise_def Let_def)
next
  case False
  with assms show ?thesis
    by (simp add: load_data_def reraise_def Let_def)
qed

lemma load_data_Inr_D:
  assumes "load_data env tf mf cc hov = (Inr (t, md, h), out)"
  shows "loadNewick env tf = Inr t \<and> load_metadata env mf = Inr md \<and> cc \<in> set (columns md)"
  using assms
  by (auto simp: load_data_def reraise_def Let_def split: sum.splits exn.splits if_splits)

lemma save_plot_raises:
  "save_plot env f p output_file show_plot =
     (Inl (Exception ''TypeError''
             ''expected str, bytes or os.PathLike object, not function'' None),
      f, [''Saving plot to: '' @ bokeh_output_file_repr env])"
  by (simp add: save_plot_def Path_def py_str_def Let_def)

lemma main_body_validate_error:
  "validate_inputs env (arg_tree a) (arg_metadata a) = Inl e \<Longrightarrow>
   main_body env f a = (Inl e, f, [])"
  by (simp add: main_body_def)

lemma main_body_load_error:
  "validate_inputs env (arg_tree a) (arg_metadata a) = Inr u \<Longrightarrow>
   load_data env (arg_tree a) (arg_metadata a) (arg_color_column a) (arg_hover_columns a) =
     (Inl e, out1) \<Longrightarrow>
   main_body env f a = (Inl e, f, out1)"
  by (simp add: main_body_def)

lemma main_body_color_error:
  "validate_inputs env (arg_tree a) (arg_metadata a) = Inr u \<Longrightarrow>
   load_data env (arg_tree a) (arg_metadata a) (arg_color_column a) (arg_hover_columns a) =
     (Inr (t, md, h), out1) \<Longrightarrow>
   color_mapping env (arg_custom_colors a) = (Inl e, out2) \<Longrightarrow>
   main_body env f a = (Inl e, f, out1 @ out2)"
  by (simp add: main_body_def Let_def)

lemma main_body_plot_error:
  "validate_inputs env (arg_tree a) (arg_metadata a) = Inr u \<Longrightarrow>
   load_data env (arg_tree a) (arg_metadata a) (arg_color_column a) (arg_hover_columns a) =
     (Inr (t, md, h), out1) \<Longrightarrow>
   color_mapping env (arg_custom_colors a) = (Inr cm, out2) \<Longrightarrow>
   create_plot env t md (a\<lparr>arg_hover_columns := h\<rparr>) cm = (Inl e, out3) \<Longrightarrow>
   main_body env f a = (Inl e, f, out1 @ out2 @ out3)"
  by (simp add: main_body_def Let_def)

lemma main_body_save:
  "validate_inputs env (arg_tree a) (arg_metadata a) = Inr u \<Longrightarrow>
   load_data env (arg_tree a) (arg_metadata a) (arg_color_column a) (arg_hover_columns a) =
     (Inr (t, md, h), out1) \<Longrightarrow>
   color_mapping env (arg_custom_colors a) = (Inr cm, out2) \<Longrightarrow>
   create_plot env t md (a\<lparr>arg_hover_columns := h\<rparr>) cm = (Inr p, out3) \<Longrightarrow>
   save_plot env f p (arg_output a) (arg_show_plot a) = (r, f', out4) \<Longrightarrow>
   main_body env f a = (r, f', out1 @ out2 @ out3 @ out4)"
  by (simp add: main_body_def Let_def)

lemma handle_outcome_exit:
  "fst (handle_outcome (r, f, out)) = (case r of Inr u \<Rightarrow> 0 | Inl e \<Rightarrow> 1)"
  by (simp add: handle_outcome_def split: sum.splits exn.splits)

text \<open>
  As the script stands, \<^verbatim>\<open>save_plot\<close> raises on every call, so the \<^verbatim>\<open>try\<close> block of
  \<^verbatim>\<open>main\<close> never runs to its end and the process ends with code 1 whatever its
  arguments and its inputs are.
\<close>

lemma main_body_never_returns: "fst (main_body env f a) \<noteq> Inr u"
  by (auto simp: main_body_def Let_def save_plot_raises split: sum.splits prod.splits)

lemma main_always_exits_1: "fst (main env f a) = 1"
proof -
  obtain r f' out where b: "main_body env f a = (r, f', out)"
    by (cases "main_body env f a") auto
  with main_body_never_returns [of env f a] obtain e where "r = Inl e"
    by (cases r) auto
  with b show ?thesis
    by (simp add: main_def handle_outcome_exit)
qed

text \<open>
  The bare \<^verbatim>\<open>except:\<close> of line 210 catches a \<^verbatim>\<open>KeyboardInterrupt\<close> as well: an
  interrupt that arrives while \<^verbatim>\<open>pd.read_csv\<close> runs on the first separator is dropped,
  the next separator is tried, and the handler of \<^verbatim>\<open>main\<close> for it is never reached.
\<close>

lemma interrupt_in_read_csv_swallowed:
  assumes "read_csv env f (CHR 0x09) = Inl KeyboardInterrupt"
    and "read_csv env f (CHR '','') = Inr md" and "1 < length (columns md)"
  shows "load_metadata env f = Inr md"
  using assms by (simp add: load_metadata_def separators_def reraise_def)

lemma sample_validate: "validate_inputs sample_env ''tree.nwk'' ''meta.csv'' = Inr ()"
  by (simp add: validate_inputs_def sample_env_def reraise_def strip_def py_isspace_def)

lemma sample_loadNewick: "loadNewick sample_env ''tree.nwk'' = Inr (Tree [''A'', ''B'', ''C''])"
  by (simp add: sample_env_def)

lemma sample_load_metadata: "load_metadata sample_env ''meta.csv'' = Inr sample_table"
  by (simp add: load_metadata_def separators_def sample_env_def reraise_def
      unsplit_table_def sample_table_def)

lemma sample_default_colors: "11 \<le> length (Vivid sample_env)"
  by (simp add: sample_env_def vivid_palette_def)

section \<open>Output Writer: the destination after a call\<close>

text \<open>
  Claim C1. After a successful call of \<^verbatim>\<open>save_plot\<close> with the show flag false, for a
  destination whose parent directories do not exist, the directories exist and the
  plot file is at the destination. The script does not reach that state: on the
  destination \<^verbatim>\<open>results/plots/tree.html\<close> and an empty file system the call raises
  \<^verbatim>\<open>TypeError\<close> at \<^verbatim>\<open>Path(output_file)\<close>, because the import of line 264 has bound
  \<^verbatim>\<open>output_file\<close> to bokeh's function; no directory is created and no file written.
\<close>

theorem save_plot_missing_directories:
  "save_plot sample_env empty_fs (Plot ''<html>'') ''results/plots/tree.html'' False =
     (Inl (Exception ''TypeError''
             ''expected str, bytes or os.PathLike object, not function'' None),
      empty_fs, [''Saving plot to: <function output_file at 0x7f3a5c1d2e50>'']) \<and>
   \<not> dir_exists empty_fs [''results''] \<and>
   \<not> dir_exists empty_fs [''results'', ''plots''] \<and>
   \<not> file_exists empty_fs [''results'', ''plots'', ''tree.html'']"
  by (simp add: save_plot_def Path_def py_str_def Let_def sample_env_def empty_fs_def
      dir_exists_def file_exists_def)

section \<open>Metadata Loader: the order of the separators\<close>

text \<open>
  Claim C2, as amended. The separators are tried in the order tab, comma, space; the
  table of the first one whose parse gives more than one column is returned, with
  that column count; when every separator fails to parse or gives at most one
  column, the loader raises a \<^verbatim>\<open>ValueError\<close> whose message is
  \<^verbatim>\<open>Error loading metadata: Could not parse metadata file with any common separator\<close>,
  and \<^verbatim>\<open>load_data\<close> raises it once the tree is loaded.
\<close>

theorem load_metadata_first_multi_column:
  "separators = [CHR 0x09, CHR '','', CHR '' ''] \<and>
   load_metadata env f =
     (let multi = (\<lambda>sep. case read_csv env f sep of
                             Inl e \<Rightarrow> False
                           | Inr t \<Rightarrow> 1 < length (columns t))
      in if multi (CHR 0x09) then read_csv env f (CHR 0x09)
         else if multi (CHR '','') then read_csv env f (CHR '','')
         else if multi (CHR '' '') then read_csv env f (CHR '' '')
         else Inl (Exception ''ValueError''
                     ''Error loading metadata: Could not parse metadata file with any common separator''
                     (Some (Exception ''ValueError''
                              ''Could not parse metadata file with any common separator''
                              None)))) \<and>
   (load_metadata env f = Inr md \<longrightarrow>
      (\<exists>sep\<in>set separators. read_csv env f sep = Inr md \<and> 1 < length (columns md))) \<and>
   (loadNewick env tf = Inr t \<and> load_metadata env f = Inl e \<longrightarrow>
      fst (load_data env tf f cc hov) = Inl e)"
proof -
  have 1: "separators = [CHR 0x09, CHR '','', CHR '' '']"
    by (simp add: separators_def)
  have 2: "load_metadata env f =
     (let multi = (\<lambda>sep. case read_csv env f sep of
                             Inl e \<Rightarrow> False
                           | Inr t \<Rightarrow> 1 < length (columns t))
      in if multi (CHR 0x09) then read_csv env f (CHR 0x09)
         else if multi (CHR '','') then read_csv env f (CHR '','')
         else if multi (CHR '' '') then read_csv env f (CHR '' '')
         else Inl (Exception ''ValueError''
                     ''Error loading metadata: Could not parse metadata file with any common separator''
                     (Some (Exception ''ValueError''
                              ''Could not parse metadata file with any common separator''
                              None))))"
    by (simp add: load_metadata_def separators_def reraise_def Let_def split: sum.splits)
  have 3: "load_metadata env f = Inr md \<longrightarrow>
      (\<exists>sep\<in>set separators. read_csv env f sep = Inr md \<and> 1 < length (columns md))"
    using load_metadata_Inr_D by blast
  have 4: "loadNewick env tf = Inr t \<and> load_metadata env f = Inl e \<longrightarrow>
      fst (load_data env tf f cc hov) = Inl e"
    by (simp add: load_data_metadata_error)
  from 1 2 3 4 show ?thesis by blast
qed

theorem load_metadata_first_multi_column_witness:
  "load_metadata sample_env ''meta.csv'' = Inr sample_table \<and>
   read_csv sample_env ''meta.csv'' (CHR 0x09) = Inr unsplit_table \<and>
   length (columns unsplit_table) = 1 \<and>
   read_csv sample_env ''meta.csv'' (CHR '','') = Inr sample_table \<and>
   length (columns sample_table) = 2"
proof -
  have "load_metadata sample_env ''meta.csv'' = Inr sample_table"
    using load_metadata_first_multi_column [of sample_env "''meta.csv''"]
    by (simp add: sample_env_def unsplit_table_def sample_table_def)
  then show ?thesis
    by (simp add: sample_env_def unsplit_table_def sample_table_def)
qed

text \<open>
  The claim as it was written gives the message as
  \<^verbatim>\<open>could not parse metadata with any common separator\<close>. On \<^verbatim>\<open>notes.txt\<close>, where the
  tab and the space fail to parse and the comma gives one column, the message of the
  error is another text.
\<close>

theorem load_metadata_message_counterexample:
  "read_csv sample_env ''notes.txt'' (CHR 0x09) =
     Inl (Exception ''ParserError'' ''Error tokenizing data'' None) \<and>
   read_csv sample_env ''notes.txt'' (CHR '','') = Inr unsplit_table \<and>
   length (columns unsplit_table) = 1 \<and>
   read_csv sample_env ''notes.txt'' (CHR '' '') =
     Inl (Exception ''ParserError'' ''Error tokenizing data'' None) \<and>
   load_metadata sample_env ''notes.txt'' =
     Inl (Exception ''ValueError''
            ''Error loading metadata: Could not parse metadata file with any common separator''
            (Some (Exception ''ValueError''
                     ''Could not parse metadata file with any common separator'' None))) \<and>
   exn_msg (projl (load_metadata sample_env ''notes.txt'')) \<noteq>
     ''could not parse metadata with any common separator''"
  by (simp add: load_metadata_def separators_def reraise_def sample_env_def unsplit_table_def)

section \<open>Schema Reconciler\<close>

text \<open>
  Claim C3. When the tree and the metadata are loaded and the color column is not a
  column of the table, \<^verbatim>\<open>load_data\<close> raises a \<^verbatim>\<open>ValueError\<close> whose message ends with
  the list of all the columns of the table, each column in it as \<^verbatim>\<open>repr\<close> writes it.
  Nothing catches the error before the top level: after a validation that passed,
  \<^verbatim>\<open>main\<close> prints the message and ends with code 1.
\<close>

theorem color_column_absent:
  assumes "loadNewick env (arg_tree a) = Inr t"
    and "load_metadata env (arg_metadata a) = Inr md"
    and "arg_color_column a \<notin> set (columns md)"
  shows "\<exists>msg out.
           load_data env (arg_tree a) (arg_metadata a) (arg_color_column a) (arg_hover_columns a) =
             (Inl (Exception ''ValueError'' msg None), out) \<and>
           msg = ''Color column '' @ [CHR 0x27] @ arg_color_column a @ [CHR 0x27] @
                 '' not found in metadata. Available columns: '' @ str_list env (columns md) \<and>
           sublist (str_list env (columns md)) msg \<and>
           (\<forall>c\<in>set (columns md). sublist (repr_str env c) msg) \<and>
           (validate_inputs env (arg_tree a) (arg_metadata a) = Inr () \<longrightarrow>
              main env f a = (1, f, out @ [cross_mark @ '' Error: '' @ msg]))"
proof -
  let ?msg = "''Color column '' @ [CHR 0x27] @ arg_color_column a @ [CHR 0x27] @
                 '' not found in metadata. Available columns: '' @ str_list env (columns md)"
  let ?out = "[''Loading tree from: '' @ arg_tree a, ''Loading metadata from: '' @ arg_metadata a,
             ''Loaded tree with '' @ str_nat (length (getExternal t)) @ '' tips'',
             ''Loaded metadata for '' @ str_nat (length (rows md)) @ '' samples'']"
  have l: "load_data env (arg_tree a) (arg_metadata a) (arg_color_column a) (arg_hover_columns a) =
             (Inl (Exception ''ValueError'' ?msg None), ?out)"
    using assms by (rule load_data_color_error)
  have "sublist (str_list env (columns md))
          ((''Color column '' @ [CHR 0x27] @ arg_color_column a @ [CHR 0x27] @
            '' not found in metadata. Available columns: '') @ str_list env (columns md) @ [])"
    by (rule sublist_embed) simp
  then have s: "sublist (str_list env (columns md)) ?msg" by simp
  have c: "\<forall>c\<in>set (columns md). sublist (repr_str env c) ?msg"
  proof
    fix c assume "c \<in> set (columns md)"
    then have "sublist (repr_str env c) (str_list env (columns md))"
      by (rule sublist_str_list)
    then have "sublist (repr_str env c)
          ((''Color column '' @ [CHR 0x27] @ arg_color_column a @ [CHR 0x27] @
            '' not found in metadata. Available columns: '') @ str_list env (columns md) @ [])"
      by (rule sublist_embed)
    then show "sublist (repr_str env c) ?msg" by simp
  qed
  have m: "validate_inputs env (arg_tree a) (arg_metadata a) = Inr () \<longrightarrow>
              main env f a = (1, f, ?out @ [cross_mark @ '' Error: '' @ ?msg])"
  proof
    assume "validate_inputs env (arg_tree a) (arg_metadata a) = Inr ()"
    then have "main_body env f a = (Inl (Exception ''ValueError'' ?msg None), f, ?out)"
      using l by (rule main_body_load_error)
    then show "main env f a = (1, f, ?out @ [cross_mark @ '' Error: '' @ ?msg])"
      by (simp add: main_def handle_outcome_def)
  qed
  from l s c m show ?thesis by blast
qed

theorem color_column_absent_witness:
  "main sample_env empty_fs (sample_args\<lparr>arg_color_column := ''species''\<rparr>) =
     (1, empty_fs,
      [''Loading tree from: tree.nwk'', ''Loading metadata from: meta.csv'',
       ''Loaded tree with 3 tips'', ''Loaded metadata for 3 samples'',
       cross_mark @ '' Error: Color column '' @ [CHR 0x27] @ ''species'' @ [CHR 0x27] @
       '' not found in metadata. Available columns: ['' @ [CHR 0x27] @ ''sample'' @
       [CHR 0x27] @ '', '' @ [CHR 0x27] @ ''taxon'' @ [CHR 0x27] @ '']''])"
proof -
  let ?a = "sample_args\<lparr>arg_color_column := ''species''\<rparr>"
  have 1: "loadNewick sample_env (arg_tree ?a) = Inr (Tree [''A'', ''B'', ''C''])"
    by (simp add: sample_args_def sample_loadNewick)
  have 2: "load_metadata sample_env (arg_metadata ?a) = Inr sample_table"
    by (simp add: sample_args_def sample_load_metadata)
  have 3: "arg_color_column ?a \<notin> set (columns sample_table)"
    by (simp add: sample_table_def)
  have 4: "validate_inputs sample_env (arg_tree ?a) (arg_metadata ?a) = Inr ()"
    by (simp add: sample_args_def sample_validate)
  from color_column_absent [OF 1 2 3, of empty_fs] 4 obtain msg out where
    l: "load_data sample_env (arg_tree ?a) (arg_metadata ?a) (arg_color_column ?a)
          (arg_hover_columns ?a) = (Inl (Exception ''ValueError'' msg None), out)"
    and m: "msg = ''Color column '' @ [CHR 0x27] @ arg_color_column ?a @ [CHR 0x27] @
                 '' not found in metadata. Available columns: '' @ str_list sample_env (columns sample_table)"
    and r: "main sample_env empty_fs ?a = (1, empty_fs, out @ [cross_mark @ '' Error: '' @ msg])"
    by blast
  have "load_data sample_env (arg_tree ?a) (arg_metadata ?a) (arg_color_column ?a)
          (arg_hover_columns ?a) =
        (Inl (Exception ''ValueError'' msg None),
         [''Loading tree from: tree.nwk'', ''Loading metadata from: meta.csv'',
          ''Loaded tree with 3 tips'', ''Loaded metadata for 3 samples''])"
    using load_data_color_error [OF 1 2 3, of "arg_hover_columns ?a"] m
    by (simp add: sample_args_def sample_table_def str_nat.simps digit_char_def)
  with l have out: "out = [''Loading tree from: tree.nwk'', ''Loading metadata from: meta.csv'',
          ''Loaded tree with 3 tips'', ''Loaded metadata for 3 samples'']"
    by simp
  have "msg = ''Color column '' @ [CHR 0x27] @ ''species'' @ [CHR 0x27] @
       '' not found in metadata. Available columns: ['' @ [CHR 0x27] @ ''sample'' @
       [CHR 0x27] @ '', '' @ [CHR 0x27] @ ''taxon'' @ [CHR 0x27] @ '']''"
    unfolding m
    by (simp add: sample_table_def str_list_def repr_str_def repr_ascii_def repr_char_def Let_def)
  with r out show ?thesis by simp
qed

text \<open>
  Claim C4. When the tree and the metadata are loaded and the color column is
  present, \<^verbatim>\<open>load_data\<close> returns, and the hover columns it returns are the requested
  ones that are columns of the table, in the order of the request. When some are
  missing, one more line is printed, a warning with the list of the missing ones;
  no error is raised.
\<close>

theorem hover_columns_filtered:
  assumes "loadNewick env tf = Inr t"
    and "load_metadata env mf = Inr md"
    and "cc \<in> set (columns md)"
  shows "\<exists>out. load_data env tf mf cc hov =
                 (Inr (t, md, filter (\<lambda>col. col \<in> set (columns md)) hov), out) \<and>
               out =
                 [''Loading tree from: '' @ tf, ''Loading metadata from: '' @ mf,
                  ''Loaded tree with '' @ str_nat (length (getExternal t)) @ '' tips'',
                  ''Loaded metadata for '' @ str_nat (length (rows md)) @ '' samples''] @
                 (if filter (\<lambda>col. col \<notin> set (columns md)) hov = [] then []
                  else [''Warning: Hover columns not found in metadata: '' @
                        str_list env (filter (\<lambda>col. col \<notin> set (columns md)) hov)])"
  using load_data_ok [OF assms] by blast

theorem hover_columns_filtered_witness:
  "load_data sample_env ''tree.nwk'' ''meta.csv'' ''taxon'' [''taxon'', ''country''] =
     (Inr (Tree [''A'', ''B'', ''C''], sample_table, [''taxon'']),
      [''Loading tree from: tree.nwk'', ''Loading metadata from: meta.csv'',
       ''Loaded tree with 3 tips'', ''Loaded metadata for 3 samples'',
       ''Warning: Hover columns not found in metadata: ['' @ [CHR 0x27] @ ''country'' @
       [CHR 0x27] @ '']''])"
proof -
  have 3: "''taxon'' \<in> set (columns sample_table)"
    by (simp add: sample_table_def)
  from hover_columns_filtered [OF sample_loadNewick sample_load_metadata 3,
      of "[''taxon'', ''country'']"]
  show ?thesis
    by (simp add: sample_table_def str_nat.simps digit_char_def str_list_def repr_str_def
        repr_ascii_def repr_char_def Let_def)
qed

section \<open>Color Resolver\<close>

text \<open>
  Claim C5. With the default mapping \<open>d\<close> at hand: when opening or decoding the color
  file raises an exception, \<^verbatim>\<open>load_custom_colors\<close> returns the default mapping and
  nothing of the file, after a warning that names the file and the cause; when the
  file decodes to \<open>v\<close>, it returns \<open>v\<close>. \<^verbatim>\<open>main\<close> takes the mapping of the file when a
  file name is given and the default mapping otherwise, one of the two.
\<close>

theorem custom_colors_all_or_nothing:
  assumes "get_default_colors env = Inr d"
  shows "(json_load env color_file = Inl (Exception c m x) \<longrightarrow>
            load_custom_colors env color_file =
              (Inr (py_dict d),
               [''Warning: Could not load custom colors from '' @ color_file @ '': '' @ m,
                ''Using default colors instead.''])) \<and>
         (json_load env color_file = Inr v \<longrightarrow>
            load_custom_colors env color_file = (Inr v, [])) \<and>
         color_mapping env None = (Inr (py_dict d), []) \<and>
         color_mapping env (Some []) = (Inr (py_dict d), []) \<and>
         (color_file \<noteq> [] \<longrightarrow>
            color_mapping env (Some color_file) = load_custom_colors env color_file)"
  using assms
  by (simp add: load_custom_colors_def color_mapping_def while_handling_def)

theorem custom_colors_all_or_nothing_witness:
  "load_custom_colors sample_env ''missing.json'' =
     (Inr (JObject
        [(''gambiae'', JString ''rgb(93, 105, 177)''), (''coluzzii'', JString ''rgb(229, 134, 6)''),
         (''arabiensis'', JString ''rgb(82, 188, 163)''), (''merus'', JString ''rgb(153, 201, 69)''),
         (''melas'', JString ''rgb(204, 97, 176)''),
         (''quadriannulatus'', JString ''rgb(36, 121, 108)''),
         (''fontenillei'', JString ''rgb(218, 165, 27)''), (''gcx1'', JString ''rgb(47, 138, 196)''),
         (''gcx2'', JString ''rgb(118, 78, 159)''), (''gcx3'', JString ''rgb(237, 100, 90)''),
         (''gcx4'', JString ''rgb(165, 170, 153)''), (''bissau'', JString ''rgb(47, 138, 196)''),
         (''pwani'', JString ''rgb(237, 100, 90)''), (''unassigned'', JString ''black'')]),
      [''Warning: Could not load custom colors from missing.json: [Errno 2] No such file or directory'',
       ''Using default colors instead.''])"
proof -
  let ?d = "[(''gambiae'', ''rgb(93, 105, 177)''), (''coluzzii'', ''rgb(229, 134, 6)''),
         (''arabiensis'', ''rgb(82, 188, 163)''), (''merus'', ''rgb(153, 201, 69)''),
         (''melas'', ''rgb(204, 97, 176)''), (''quadriannulatus'', ''rgb(36, 121, 108)''),
         (''fontenillei'', ''rgb(218, 165, 27)''), (''gcx1'', ''rgb(47, 138, 196)''),
         (''gcx2'', ''rgb(118, 78, 159)''), (''gcx3'', ''rgb(237, 100, 90)''),
         (''gcx4'', ''rgb(165, 170, 153)''), (''bissau'', ''rgb(47, 138, 196)''),
         (''pwani'', ''rgb(237, 100, 90)''), (''unassigned'', ''black'')]"
  have d: "get_default_colors sample_env = Inr ?d"
    by (simp add: get_default_colors_def getitem_def sample_env_def vivid_palette_def Let_def)
  have j: "json_load sample_env ''missing.json'' =
      Inl (Exception ''FileNotFoundError'' ''[Errno 2] No such file or directory'' None)"
    by (simp add: sample_env_def)
  from custom_colors_all_or_nothing [OF d, of "''missing.json''"] j
  have "load_custom_colors sample_env ''missing.json'' =
          (Inr (py_dict ?d),
           [''Warning: Could not load custom colors from '' @ ''missing.json'' @ '': '' @
            ''[Errno 2] No such file or directory'',
            ''Using default colors instead.''])"
    by blast
  then show ?thesis by (simp add: py_dict_def)
qed

section \<open>Tree Loader\<close>

text \<open>
  Claim C6, as amended. An exception that the tree parser raises is raised again as
  a \<^verbatim>\<open>ValueError\<close> whose message is \<^verbatim>\<open>Error loading tree: \<close> followed by the text of
  the cause, and whose context is the cause.
\<close>

theorem tree_loader_wraps_cause:
  assumes "loadNewick env tree_file = Inl (Exception c m x)"
  shows "load_data env tree_file metadata_file color_column hover_columns =
           (Inl (Exception ''ValueError'' (''Error loading tree: '' @ m)
                   (Some (Exception c m x))),
            [''Loading tree from: '' @ tree_file])"
  using assms by (rule load_data_tree_error)

theorem tree_loader_wraps_cause_witness:
  "load_data sample_env ''broken.nwk'' ''meta.csv'' ''taxon'' [''taxon''] =
     (Inl (Exception ''ValueError'' ''Error loading tree: Regular expression failed to find tree string''
             (Some (Exception ''AssertionError'' ''Regular expression failed to find tree string'' None))),
      [''Loading tree from: broken.nwk''])"
proof -
  have "loadNewick sample_env ''broken.nwk'' =
          Inl (Exception ''AssertionError'' ''Regular expression failed to find tree string'' None)"
    by (simp add: sample_env_def)
  from tree_loader_wraps_cause [OF this] show ?thesis by simp
qed

text \<open>
  The claim as it was written has the path of the tree file attached to the error.
  For \<^verbatim>\<open>broken.nwk\<close> the path occurs neither in the message of the error nor in the
  message of its context.
\<close>

theorem tree_loader_path_counterexample:
  "fst (load_data sample_env ''broken.nwk'' ''meta.csv'' ''taxon'' [''taxon'']) =
     Inl (Exception ''ValueError'' ''Error loading tree: Regular expression failed to find tree string''
            (Some (Exception ''AssertionError'' ''Regular expression failed to find tree string'' None))) \<and>
   \<not> sublist ''broken.nwk'' ''Error loading tree: Regular expression failed to find tree string'' \<and>
   \<not> sublist ''broken.nwk'' ''Regular expression failed to find tree string''"
proof -
  have 1: "fst (load_data sample_env ''broken.nwk'' ''meta.csv'' ''taxon'' [''taxon'']) =
     Inl (Exception ''ValueError'' ''Error loading tree: Regular expression failed to find tree string''
            (Some (Exception ''AssertionError'' ''Regular expression failed to find tree string'' None)))"
    by (simp add: load_data_def reraise_def sample_env_def)
  have 2: "\<not> sublist ''broken.nwk'' ''Error loading tree: Regular expression failed to find tree string''"
    by code_simp
  have 3: "\<not> sublist ''broken.nwk'' ''Regular expression failed to find tree string''"
    by code_simp
  from 1 2 3 show ?thesis by blast
qed

section \<open>Input Validator\<close>

text \<open>
  Claim C7. \<^verbatim>\<open>validate_inputs\<close> raises \<^verbatim>\<open>FileNotFoundError\<close> exactly when one of the two
  paths does not exist; it raises \<^verbatim>\<open>ValueError\<close> exactly when both exist and either
  reading the tree file raises an exception or its text is empty once stripped; it
  returns exactly when both exist and the text of the tree file is not empty once
  stripped; the one outcome left is an interrupt during the read, which passes
  through. It reads nothing of the metadata file: two environments that agree on
  which paths exist and on the text of the tree file give the same outcome.
\<close>

theorem validate_inputs_raises_iff:
  "((\<exists>m x. validate_inputs env tree_file metadata_file =
             Inl (Exception ''FileNotFoundError'' m x)) \<longleftrightarrow>
      \<not> (path_exists env tree_file \<and> path_exists env metadata_file)) \<and>
   ((\<exists>m x. validate_inputs env tree_file metadata_file = Inl (Exception ''ValueError'' m x)) \<longleftrightarrow>
      path_exists env tree_file \<and> path_exists env metadata_file \<and>
      ((\<exists>c m x. read_text env tree_file = Inl (Exception c m x)) \<or>
       (\<exists>content. read_text env tree_file = Inr content \<and> strip content = []))) \<and>
   (validate_inputs env tree_file metadata_file = Inr () \<longleftrightarrow>
      path_exists env tree_file \<and> path_exists env metadata_file \<and>
      (\<exists>content. read_text env tree_file = Inr content \<and> strip content \<noteq> [])) \<and>
   (validate_inputs env tree_file metadata_file = Inl KeyboardInterrupt \<longleftrightarrow>
      path_exists env tree_file \<and> path_exists env metadata_file \<and>
      read_text env tree_file = Inl KeyboardInterrupt) \<and>
   (path_exists env' = path_exists env \<and> read_text env' tree_file = read_text env tree_file \<longrightarrow>
      validate_inputs env' tree_file metadata_file =
      validate_inputs env tree_file metadata_file)"
  by (auto simp: validate_inputs_def reraise_def split: sum.splits exn.splits)

theorem validate_inputs_raises_iff_witness:
  "validate_inputs sample_env ''tree.nwk'' ''meta.csv'' = Inr () \<and>
   validate_inputs sample_env ''tree.nwk'' ''absent.csv'' =
     Inl (Exception ''FileNotFoundError'' ''Metadata file not found: absent.csv'' None) \<and>
   validate_inputs sample_env ''notes.txt'' ''meta.csv'' =
     Inl (Exception ''ValueError''
            ''Cannot read tree file notes.txt: [Errno 13] Permission denied''
            (Some (Exception ''PermissionError'' ''[Errno 13] Permission denied'' None)))"
proof -
  have e: "path_exists sample_env ''tree.nwk'' \<and> path_exists sample_env ''meta.csv''"
    by (simp add: sample_env_def)
  have r: "\<exists>content. read_text sample_env ''tree.nwk'' = Inr content \<and> strip content \<noteq> []"
    by (simp add: sample_env_def strip_def py_isspace_def)
  from validate_inputs_raises_iff [of sample_env "''tree.nwk''" "''meta.csv''"] e r
  have "validate_inputs sample_env ''tree.nwk'' ''meta.csv'' = Inr ()"
    by blast
  then show ?thesis
    by (simp add: validate_inputs_def sample_env_def reraise_def)
qed

section \<open>The top level\<close>

text \<open>
  Claim C8. The process ends with code 0 when the whole pipeline succeeds, and with
  code 1 and a printed message on a failure or an interrupt. On the inputs of the
  example nothing fails outside the script: the validation passes, the tree and the
  metadata are loaded, the color mapping is built and the plotting library returns
  the plot. The run ends with code 1 all the same, after the message of the
  \<^verbatim>\<open>TypeError\<close> that \<^verbatim>\<open>save_plot\<close> raises, and with nothing written.
\<close>

theorem main_valid_run_exits_1:
  "validate_inputs sample_env (arg_tree sample_args) (arg_metadata sample_args) = Inr () \<and>
   fst (load_data sample_env (arg_tree sample_args) (arg_metadata sample_args)
          (arg_color_column sample_args) (arg_hover_columns sample_args)) =
     Inr (Tree [''A'', ''B'', ''C''], sample_table, [''taxon'']) \<and>
   \<not> isl (fst (color_mapping sample_env (arg_custom_colors sample_args))) \<and>
   fst (create_plot sample_env (Tree [''A'', ''B'', ''C'']) sample_table
          (sample_args\<lparr>arg_hover_columns := [''taxon'']\<rparr>)
          (projr (fst (color_mapping sample_env (arg_custom_colors sample_args))))) =
     Inr (Plot ''<html>'') \<and>
   main sample_env empty_fs sample_args =
     (1, empty_fs,
      [''Loading tree from: tree.nwk'', ''Loading metadata from: meta.csv'',
       ''Loaded tree with 3 tips'', ''Loaded metadata for 3 samples'',
       ''Warning: Hover columns not found in metadata: ['' @ [CHR 0x27] @ ''country'' @
       [CHR 0x27] @ '']'',
       ''Creating phylogenetic tree plot...'',
       ''Saving plot to: <function output_file at 0x7f3a5c1d2e50>'',
       cross_mark @ '' Error: expected str, bytes or os.PathLike object, not function''])"
proof -
  let ?t = "Tree [''A'', ''B'', ''C'']"
  let ?out1 = "[''Loading tree from: tree.nwk'', ''Loading metadata from: meta.csv'',
       ''Loaded tree with 3 tips'', ''Loaded metadata for 3 samples'',
       ''Warning: Hover columns not found in metadata: ['' @ [CHR 0x27] @ ''country'' @
       [CHR 0x27] @ '']'']"
  have v: "validate_inputs sample_env (arg_tree sample_args) (arg_metadata sample_args) = Inr ()"
    by (simp add: sample_args_def sample_validate)
  have c3: "''taxon'' \<in> set (columns sample_table)"
    by (simp add: sample_table_def)
  have l: "load_data sample_env (arg_tree sample_args) (arg_metadata sample_args)
          (arg_color_column sample_args) (arg_hover_columns sample_args) =
     (Inr (?t, sample_table, [''taxon'']), ?out1)"
    using load_data_ok [OF sample_loadNewick sample_load_metadata c3,
        of "[''taxon'', ''country'']"]
    by (simp add: sample_args_def sample_table_def str_nat.simps digit_char_def str_list_def
        repr_str_def repr_ascii_def repr_char_def Let_def)
  obtain d where d: "get_default_colors sample_env = Inr d"
    by (simp add: get_default_colors_def getitem_def sample_env_def vivid_palette_def Let_def)
  have m: "color_mapping sample_env (arg_custom_colors sample_args) = (Inr (py_dict d), [])"
    by (simp add: color_mapping_def sample_args_def d)
  have p: "create_plot sample_env ?t sample_table
             (sample_args\<lparr>arg_hover_columns := [''taxon'']\<rparr>) (py_dict d) =
           (Inr (Plot ''<html>''), [''Creating phylogenetic tree plot...''])"
    by (simp add: create_plot_def reraise_def sample_env_def)
  have s: "save_plot sample_env empty_fs (Plot ''<html>'') (arg_output sample_args)
             (arg_show_plot sample_args) =
           (Inl (Exception ''TypeError''
                   ''expected str, bytes or os.PathLike object, not function'' None),
            empty_fs, [''Saving plot to: <function output_file at 0x7f3a5c1d2e50>''])"
    by (simp add: save_plot_raises sample_env_def)
  have b: "main_body sample_env empty_fs sample_args =
           (Inl (Exception ''TypeError''
                   ''expected str, bytes or os.PathLike object, not function'' None),
            empty_fs,
            ?out1 @ [] @ [''Creating phylogenetic tree plot...''] @
            [''Saving plot to: <function output_file at 0x7f3a5c1d2e50>''])"
    using v l m p s by (rule main_body_save)
  have r: "main sample_env empty_fs sample_args =
     (1, empty_fs,
      [''Loading tree from: tree.nwk'', ''Loading metadata from: meta.csv'',
       ''Loaded tree with 3 tips'', ''Loaded metadata for 3 samples'',
       ''Warning: Hover columns not found in metadata: ['' @ [CHR 0x27] @ ''country'' @
       [CHR 0x27] @ '']'',
       ''Creating phylogenetic tree plot...'',
       ''Saving plot to: <function output_file at 0x7f3a5c1d2e50>'',
       cross_mark @ '' Error: expected str, bytes or os.PathLike object, not function''])"
    by (simp add: main_def b handle_outcome_def)
  have l': "fst (load_data sample_env (arg_tree sample_args) (arg_metadata sample_args)
          (arg_color_column sample_args) (arg_hover_columns sample_args)) =
     Inr (?t, sample_table, [''taxon''])"
    by (simp add: l)
  have m': "\<not> isl (fst (color_mapping sample_env (arg_custom_colors sample_args)))"
    by (simp add: m)
  have p': "fst (create_plot sample_env ?t sample_table
          (sample_args\<lparr>arg_hover_columns := [''taxon'']\<rparr>)
          (projr (fst (color_mapping sample_env (arg_custom_colors sample_args))))) =
     Inr (Plot ''<html>'')"
    by (simp add: m p)
  show ?thesis
    apply (intro conjI)
        apply (rule v)
       apply (rule l')
      apply (rule m')
     apply (rule p')
    apply (rule r)
    done
qed

section \<open>The metadata table after it is parsed\<close>

text \<open>
  Claim C9. The table that \<^verbatim>\<open>load_data\<close> returns is the table that \<^verbatim>\<open>pd.read_csv\<close>
  gave for the accepted separator, with every column and every row; the color-column
  check and the hover-column reconciliation change nothing of it, and only the list
  of hover columns is replaced by its filtered version. \<^verbatim>\<open>main\<close> hands that table to
  the plotting library as \<^verbatim>\<open>df_metadata\<close>, and the arguments it passes on differ from
  the parsed ones in the hover columns alone.
\<close>

theorem metadata_table_unchanged:
  assumes "load_data env (arg_tree a) (arg_metadata a) (arg_color_column a)
             (arg_hover_columns a) = (Inr (t, md, h), out1)"
  shows "(\<exists>sep\<in>set separators. read_csv env (arg_metadata a) sep = Inr md) \<and>
         load_metadata env (arg_metadata a) = Inr md \<and>
         h = filter (\<lambda>col. col \<in> set (columns md)) (arg_hover_columns a) \<and>
         (validate_inputs env (arg_tree a) (arg_metadata a) = Inr () \<and>
          color_mapping env (arg_custom_colors a) = (Inr cm, out2) \<longrightarrow>
            (\<exists>rc. rc_df_metadata rc = md \<and> rc_hover_data rc = h \<and>
                  rc_color_column rc = arg_color_column a \<and>
                  main_body env f a =
                    (case reraise ''RuntimeError'' (\<lambda>m. ''Error creating plot: '' @ m)
                            (plotTree env rc) of
                       Inl e \<Rightarrow>
                         (Inl e, f, out1 @ out2 @ [''Creating phylogenetic tree plot...''])
                     | Inr p \<Rightarrow>
                         (case save_plot env f p (arg_output a) (arg_show_plot a) of
                            (r, f', out4) \<Rightarrow>
                              (r, f',
                               out1 @ out2 @ [''Creating phylogenetic tree plot...''] @ out4)))))"
proof -
  from assms have d: "loadNewick env (arg_tree a) = Inr t"
    "load_metadata env (arg_metadata a) = Inr md" "arg_color_column a \<in> set (columns md)"
    using load_data_Inr_D by blast+
  from d(2) have 1: "\<exists>sep\<in>set separators. read_csv env (arg_metadata a) sep = Inr md"
    using load_metadata_Inr_D by blast
  from assms load_data_ok [OF d, of "arg_hover_columns a"]
  have 3: "h = filter (\<lambda>col. col \<in> set (columns md)) (arg_hover_columns a)"
    by simp
  have 4: "validate_inputs env (arg_tree a) (arg_metadata a) = Inr () \<and>
          color_mapping env (arg_custom_colors a) = (Inr cm, out2) \<longrightarrow>
            (\<exists>rc. rc_df_metadata rc = md \<and> rc_hover_data rc = h \<and>
                  rc_color_column rc = arg_color_column a \<and>
                  main_body env f a =
                    (case reraise ''RuntimeError'' (\<lambda>m. ''Error creating plot: '' @ m)
                            (plotTree env rc) of
                       Inl e \<Rightarrow>
                         (Inl e, f, out1 @ out2 @ [''Creating phylogenetic tree plot...''])
                     | Inr p \<Rightarrow>
                         (case save_plot env f p (arg_output a) (arg_show_plot a) of
                            (r, f', out4) \<Rightarrow>
                              (r, f',
                               out1 @ out2 @ [''Creating phylogenetic tree plot...''] @ out4))))"
  proof
    assume h: "validate_inputs env (arg_tree a) (arg_metadata a) = Inr () \<and>
          color_mapping env (arg_custom_colors a) = (Inr cm, out2)"
    let ?rc = "\<lparr>rc_tree = t,
            rc_type = arg_tree_type a,
            rc_df_metadata = md,
            rc_color_column = arg_color_column a,
            rc_color_discrete_map = cm,
            rc_size = arg_marker_size a,
            rc_plot_width = arg_width a,
            rc_plot_height = arg_height a,
            rc_output_backend = arg_backend a,
            rc_marker = arg_marker a,
            rc_marker_line_color = ''white'',
            rc_marker_line_width = 0,
            rc_hover_data = h,
            rc_max_branch_length = arg_max_branch_length a,
            rc_min_branch_length = arg_min_branch_length a\<rparr>"
    have "main_body env f a =
                    (case reraise ''RuntimeError'' (\<lambda>m. ''Error creating plot: '' @ m)
                            (plotTree env ?rc) of
                       Inl e \<Rightarrow>
                         (Inl e, f, out1 @ out2 @ [''Creating phylogenetic tree plot...''])
                     | Inr p \<Rightarrow>
                         (case save_plot env f p (arg_output a) (arg_show_plot a) of
                            (r, f', out4) \<Rightarrow>
                              (r, f',
                               out1 @ out2 @ [''Creating phylogenetic tree plot...''] @ out4)))"
      using h assms
      by (simp add: main_body_def create_plot_def Let_def split: sum.splits)
    moreover have "rc_df_metadata ?rc = md \<and> rc_hover_data ?rc = h \<and>
        rc_color_column ?rc = arg_color_column a"
      by simp
    ultimately show "\<exists>rc. rc_df_metadata rc = md \<and> rc_hover_data rc = h \<and>
                  rc_color_column rc = arg_color_column a \<and>
                  main_body env f a =
                    (case reraise ''RuntimeError'' (\<lambda>m. ''Error creating plot: '' @ m)
                            (plotTree env rc) of
                       Inl e \<Rightarrow>
                         (Inl e, f, out1 @ out2 @ [''Creating phylogenetic tree plot...''])
                     | Inr p \<Rightarrow>
                         (case save_plot env f p (arg_output a) (arg_show_plot a) of
                            (r, f', out4) \<Rightarrow>
                              (r, f',
                               out1 @ out2 @ [''Creating phylogenetic tree plot...''] @ out4)))"
      by blast
  qed
  from 1 d(2) 3 4 show ?thesis by blast
qed

theorem metadata_table_unchanged_witness:
  "fst (load_data sample_env ''tree.nwk'' ''meta.csv'' ''taxon'' [''taxon'', ''country'']) =
     Inr (Tree [''A'', ''B'', ''C''], sample_table, [''taxon'']) \<and>
   read_csv sample_env ''meta.csv'' (CHR '','') = Inr sample_table \<and>
   load_metadata sample_env ''meta.csv'' = Inr sample_table"
proof -
  have 3: "''taxon'' \<in> set (columns sample_table)"
    by (simp add: sample_table_def)
  obtain out where l:
    "load_data sample_env (arg_tree sample_args) (arg_metadata sample_args)
       (arg_color_column sample_args) (arg_hover_columns sample_args) =
     (Inr (Tree [''A'', ''B'', ''C''], sample_table, [''taxon'']), out)"
    using load_data_ok [OF sample_loadNewick sample_load_metadata 3,
        of "[''taxon'', ''country'']"]
    by (simp add: sample_args_def sample_table_def)
  from metadata_table_unchanged [OF l]
  have "load_metadata sample_env (arg_metadata sample_args) = Inr sample_table"
    by blast
  with l show ?thesis
    by (simp add: sample_args_def sample_env_def)
qed

section \<open>The default colors\<close>

text \<open>
  Claim C10. With a palette of at least 11 colors, \<^verbatim>\<open>get_default_colors\<close> returns the
  same mapping at every call: 14 entries with distinct keys, the 13 taxon labels with
  the palette entries of the fixed indices 1, 0, 2, 3, 4, 5, 6, 7, 8, 9, 10, 7, 9 and
  \<^verbatim>\<open>unassigned\<close> with \<^verbatim>\<open>black\<close>, set by the resolver itself. The mapping is not
  injective: \<^verbatim>\<open>bissau\<close> has the color of \<^verbatim>\<open>gcx1\<close> (index 7) and \<^verbatim>\<open>pwani\<close> the color
  of \<^verbatim>\<open>gcx3\<close> (index 9).
\<close>

theorem default_colors_fixed:
  assumes "11 \<le> length (Vivid env)"
  shows "\<exists>d. get_default_colors env = Inr d \<and>
           d = [(''gambiae'', Vivid env ! 1), (''coluzzii'', Vivid env ! 0),
                (''arabiensis'', Vivid env ! 2), (''merus'', Vivid env ! 3),
                (''melas'', Vivid env ! 4), (''quadriannulatus'', Vivid env ! 5),
                (''fontenillei'', Vivid env ! 6), (''gcx1'', Vivid env ! 7),
                (''gcx2'', Vivid env ! 8), (''gcx3'', Vivid env ! 9),
                (''gcx4'', Vivid env ! 10), (''bissau'', Vivid env ! 7),
                (''pwani'', Vivid env ! 9), (''unassigned'', ''black'')] \<and>
           length d = 14 \<and> distinct (map fst d) \<and>
           map_of d ''unassigned'' = Some ''black'' \<and>
           map_of d ''bissau'' = map_of d ''gcx1'' \<and>
           map_of d ''bissau'' = Some (Vivid env ! 7) \<and>
           map_of d ''pwani'' = map_of d ''gcx3'' \<and>
           map_of d ''pwani'' = Some (Vivid env ! 9) \<and>
           \<not> inj_on (map_of d) (set (map fst d))"
proof -
  let ?d = "[(''gambiae'', Vivid env ! 1), (''coluzzii'', Vivid env ! 0),
                (''arabiensis'', Vivid env ! 2), (''merus'', Vivid env ! 3),
                (''melas'', Vivid env ! 4), (''quadriannulatus'', Vivid env ! 5),
                (''fontenillei'', Vivid env ! 6), (''gcx1'', Vivid env ! 7),
                (''gcx2'', Vivid env ! 8), (''gcx3'', Vivid env ! 9),
                (''gcx4'', Vivid env ! 10), (''bissau'', Vivid env ! 7),
                (''pwani'', Vivid env ! 9), (''unassigned'', ''black'')]"
  have item: "getitem (Vivid env) i = Inr (Vivid env ! i)" if "i \<le> 10" for i
    using assms that by (simp add: getitem_def)
  have eq: "get_default_colors env = Inr ?d"
    by (simp add: get_default_colors_def item Let_def)
  have len: "length ?d = 14" by simp
  have dist: "distinct (map fst ?d)" by simp
  have un: "map_of ?d ''unassigned'' = Some ''black''" by simp
  have b: "map_of ?d ''bissau'' = map_of ?d ''gcx1''" by simp
  have b7: "map_of ?d ''bissau'' = Some (Vivid env ! 7)" by simp
  have p: "map_of ?d ''pwani'' = map_of ?d ''gcx3''" by simp
  have p9: "map_of ?d ''pwani'' = Some (Vivid env ! 9)" by simp
  have ni: "\<not> inj_on (map_of ?d) (set (map fst ?d))"
  proof
    assume inj: "inj_on (map_of ?d) (set (map fst ?d))"
    have m1: "''bissau'' \<in> set (map fst ?d)" by simp
    have m2: "''gcx1'' \<in> set (map fst ?d)" by simp
    from inj b m1 m2 have "''bissau'' = ''gcx1''"
      by (rule inj_onD)
    then show False by simp
  qed
  show ?thesis
    apply (rule exI [of _ ?d])
    apply (intro conjI)
             apply (rule eq)
            apply (rule refl)
           apply (rule len)
          apply (rule dist)
         apply (rule un)
        apply (rule b)
       apply (rule b7)
      apply (rule p)
     apply (rule p9)
    apply (rule ni)
    done
qed

theorem default_colors_fixed_witness:
  "get_default_colors sample_env =
     Inr [(''gambiae'', ''rgb(93, 105, 177)''), (''coluzzii'', ''rgb(229, 134, 6)''),
          (''arabiensis'', ''rgb(82, 188, 163)''), (''merus'', ''rgb(153, 201, 69)''),
          (''melas'', ''rgb(204, 97, 176)''), (''quadriannulatus'', ''rgb(36, 121, 108)''),
          (''fontenillei'', ''rgb(218, 165, 27)''), (''gcx1'', ''rgb(47, 138, 196)''),
          (''gcx2'', ''rgb(118, 78, 159)''), (''gcx3'', ''rgb(237, 100, 90)''),
          (''gcx4'', ''rgb(165, 170, 153)''), (''bissau'', ''rgb(47, 138, 196)''),
          (''pwani'', ''rgb(237, 100, 90)''), (''unassigned'', ''black'')]"
proof -
  from default_colors_fixed [OF sample_default_colors]
  have "get_default_colors sample_env =
     Inr [(''gambiae'', Vivid sample_env ! 1), (''coluzzii'', Vivid sample_env ! 0),
          (''arabiensis'', Vivid sample_env ! 2), (''merus'', Vivid sample_env ! 3),
          (''melas'', Vivid sample_env ! 4), (''quadriannulatus'', Vivid sample_env ! 5),
          (''fontenillei'', Vivid sample_env ! 6), (''gcx1'', Vivid sample_env ! 7),
          (''gcx2'', Vivid sample_env ! 8), (''gcx3'', Vivid sample_env ! 9),
          (''gcx4'', Vivid sample_env ! 10), (''bissau'', Vivid sample_env ! 7),
          (''pwani'', Vivid sample_env ! 9), (''unassigned'', ''black'')]"
    by (elim exE conjE) (erule back_subst)
  moreover have "Vivid sample_env = vivid_palette"
    by (simp add: sample_env_def)
  ultimately show ?thesis
    by (simp add: vivid_palette_def)
qed


end
